theory Spec2Isabelle
  imports Complex_Main "HOL-Library.AList"
begin

section \<open>Python values and errors\<close>

text \<open>
  Exceptions of the Python source are values. An operation that mutates the model object
  returns the exception (if any) together with the object as the exception leaves it:
  a raise in the middle of a build does not undo the attributes already assigned.
\<close>

datatype error =
    AssertionError
  | KeyError int
  | IndexError
  | AttributeError
  | TypeError
  | ValueError
  | ZeroDivisionError
  | UnboundLocalError

type_synonym 's outcome = "error option \<times> 's"

definition and_then :: "'s outcome \<Rightarrow> ('s \<Rightarrow> 's outcome) \<Rightarrow> 's outcome" where
  "and_then r f = (case r of (Some e, s) \<Rightarrow> (Some e, s) | (None, s) \<Rightarrow> f s)"

text \<open>\<^verbatim>\<open>range(n)\<close>: empty for \<open>n \<le> 0\<close>.\<close>

definition py_range :: "int \<Rightarrow> int list" where
  "py_range n = [0..n - 1]"

text \<open>\<^verbatim>\<open>xs[:k]\<close>: a negative bound counts from the end.\<close>

definition py_slice_to :: "'a list \<Rightarrow> int \<Rightarrow> 'a list" where
  "py_slice_to xs k =
     (if 0 \<le> k then take (nat k) xs else take (length xs - nat (- k)) xs)"

text \<open>\<^verbatim>\<open>enumerate(xs)\<close>.\<close>

definition enumerate_py :: "'a list \<Rightarrow> (int \<times> 'a) list" where
  "enumerate_py xs = zip (py_range (int (length xs))) xs"

text \<open>Keyword arguments handed to the process-model factory; \<^verbatim>\<open>{}\<close> is \<open>[]\<close>.\<close>

type_synonym 'a kwargs = "(string \<times> 'a) list"

section \<open>multiperiod.py: the model object\<close>

text \<open>
  A \<^verbatim>\<open>pyo.Constraint(range(len(variable_pairs)))\<close>: its index set, the equality
  \<^verbatim>\<open>pair[0] == pair[1]\<close> stored at each index that was assigned, and the active flag.
\<close>

record 'v constraint =
  con_index :: "int list"
  con_body :: "(int \<times> 'v \<times> 'v) list"
  con_active :: bool

text \<open>
  \<^verbatim>\<open>m.blocks[t].process\<close>: what the factory returned, the block's active flag, and
  the two containers the class attaches under the names \<^verbatim>\<open>link_constraints\<close> and
  \<^verbatim>\<open>periodic_constraints\<close> (\<open>None\<close>: the attribute does not exist).
\<close>

record ('p, 'v) process =
  content :: 'p
  active :: bool
  link_constraints :: "'v constraint option"
  periodic_constraints :: "'v constraint option"

type_synonym ('p, 'v) pair_func = "('p, 'v) process \<Rightarrow> ('p, 'v) process \<Rightarrow> ('v \<times> 'v) list"

text \<open>
  \<^verbatim>\<open>MultiPeriodModel\<close> on the \<^verbatim>\<open>build_multi_period_model\<close> path. \<open>TIME\<close> is pyomo's
  insertion-ordered set (\<open>None\<close> before the build), \<open>blocks\<close> the indexed block in
  creation order, \<open>pyomo_model\<close> tells whether \<^verbatim>\<open>_pyomo_model\<close> has been assigned.
\<close>

record ('a, 'p, 'v) multi_period_model =
  n_time_points :: int
  create_process_model :: "'a kwargs \<Rightarrow> 'p"
  get_linking_variable_pairs :: "('p, 'v) pair_func"
  get_periodic_variable_pairs :: "('p, 'v) pair_func option"
  TIME :: "int list option"
  blocks :: "(int \<times> ('p, 'v) process) list"
  pyomo_model :: bool
  first_active_time :: "int option"

text \<open>\<^verbatim>\<open>__init__\<close> with \<^verbatim>\<open>use_stochastic_build=False\<close>.\<close>

definition init_model ::
  "int \<Rightarrow> ('a kwargs \<Rightarrow> 'p) \<Rightarrow> ('p, 'v) pair_func \<Rightarrow> ('p, 'v) pair_func option
     \<Rightarrow> ('a, 'p, 'v) multi_period_model" where
  "init_model n process_model_func linking_variable_func periodic_variable_func =
     \<lparr> n_time_points = n,
       create_process_model = process_model_func,
       get_linking_variable_pairs = linking_variable_func,
       get_periodic_variable_pairs = periodic_variable_func,
       TIME = None, blocks = [], pyomo_model = False, first_active_time = None \<rparr>"

text \<open>A process block as the factory's result is first stored.\<close>

definition new_process :: "'p \<Rightarrow> ('p, 'v) process" where
  "new_process c =
     \<lparr> content = c, active = True, link_constraints = None, periodic_constraints = None \<rparr>"

text \<open>
  Reading \<^verbatim>\<open>m.blocks[t].process\<close>: an index outside \<open>TIME\<close> is a KeyError, an index
  of \<open>TIME\<close> whose block has no \<^verbatim>\<open>process\<close> yet an AttributeError.
\<close>

definition get_process ::
  "('a, 'p, 'v) multi_period_model \<Rightarrow> int \<Rightarrow> error + ('p, 'v) process" where
  "get_process m t =
     (case map_of (blocks m) t of
        Some b \<Rightarrow> Inr b
      | None \<Rightarrow> (case TIME m of
                  None \<Rightarrow> Inl AttributeError
                | Some T \<Rightarrow> if t \<in> set T then Inl AttributeError else Inl (KeyError t)))"

definition set_process ::
  "int \<Rightarrow> ('p, 'v) process \<Rightarrow> ('a, 'p, 'v) multi_period_model \<Rightarrow> ('a, 'p, 'v) multi_period_model" where
  "set_process t b m = m\<lparr> blocks := AList.update t b (blocks m) \<rparr>"

text \<open>The two loops that fill a constraint container, one assignment per pair.\<close>

definition fill_constraint :: "('v \<times> 'v) list \<Rightarrow> 'v constraint" where
  "fill_constraint variable_pairs =
     fold (\<lambda>(i, pair) c. c\<lparr> con_body := AList.update i pair (con_body c) \<rparr>)
       (enumerate_py variable_pairs)
       \<lparr> con_index = py_range (int (length variable_pairs)), con_body = [], con_active = True \<rparr>"

definition create_linking_constraints ::
  "('p, 'v) process \<Rightarrow> ('v \<times> 'v) list \<Rightarrow> ('p, 'v) process" where
  "create_linking_constraints b1 variable_pairs =
     b1\<lparr> link_constraints := Some (fill_constraint variable_pairs) \<rparr>"

definition create_periodic_constraints ::
  "('p, 'v) process \<Rightarrow> ('v \<times> 'v) list \<Rightarrow> ('p, 'v) process" where
  "create_periodic_constraints b1 variable_pairs =
     b1\<lparr> periodic_constraints := Some (fill_constraint variable_pairs) \<rparr>"

section \<open>multiperiod.py: build_multi_period_model\<close>

text \<open>\<^verbatim>\<open>for t in m.TIME: m.blocks[t].process = self.create_process_model(**model_data_kwargs[t])\<close>\<close>

fun create_blocks ::
  "(int \<times> 'a kwargs) list \<Rightarrow> int list \<Rightarrow> ('a, 'p, 'v) multi_period_model
     \<Rightarrow> ('a, 'p, 'v) multi_period_model outcome" where
  "create_blocks kws [] m = (None, m)"
| "create_blocks kws (t # ts) m =
     (case map_of kws t of
        None \<Rightarrow> (Some (KeyError t), m)
      | Some kw \<Rightarrow>
          create_blocks kws ts (set_process t (new_process (create_process_model m kw)) m))"

text \<open>The linking loop over \<^verbatim>\<open>m.TIME.data()[: self.n_time_points - 1]\<close>.\<close>

fun link_blocks ::
  "int list \<Rightarrow> ('a, 'p, 'v) multi_period_model \<Rightarrow> ('a, 'p, 'v) multi_period_model outcome" where
  "link_blocks [] m = (None, m)"
| "link_blocks (t # ts) m =
     (case get_process m t of
        Inl e \<Rightarrow> (Some e, m)
      | Inr b1 \<Rightarrow>
          (case get_process m (t + 1) of
             Inl e \<Rightarrow> (Some e, m)
           | Inr b2 \<Rightarrow>
               link_blocks ts
                 (set_process t
                    (create_linking_constraints b1 (get_linking_variable_pairs m b1 b2)) m)))"

definition link_periodic ::
  "('a, 'p, 'v) multi_period_model \<Rightarrow> ('a, 'p, 'v) multi_period_model outcome" where
  "link_periodic m =
     (case get_periodic_variable_pairs m of
        None \<Rightarrow> (None, m)
      | Some periodic_func \<Rightarrow>
          (let N = int (length (blocks m)) in
           case get_process m (N - 1) of
             Inl e \<Rightarrow> (Some e, m)
           | Inr bN \<Rightarrow>
               (case get_process m 0 of
                  Inl e \<Rightarrow> (Some e, m)
                | Inr b0 \<Rightarrow>
                    (None, set_process (N - 1)
                             (create_periodic_constraints bN (periodic_func bN b0)) m))))"

text \<open>\<^verbatim>\<open>self._pyomo_model = m; self._first_active_time = m.TIME.first()\<close>\<close>

definition finish_build ::
  "('a, 'p, 'v) multi_period_model \<Rightarrow> ('a, 'p, 'v) multi_period_model outcome" where
  "finish_build m =
     (let m1 = m\<lparr> pyomo_model := True \<rparr> in
      case TIME m1 of
        Some (t0 # _) \<Rightarrow> (None, m1\<lparr> first_active_time := Some t0 \<rparr>)
      | _ \<Rightarrow> (Some IndexError, m1))"

definition build_multi_period_model ::
  "('a, 'p, 'v) multi_period_model \<Rightarrow> (int \<times> 'a kwargs) list option
     \<Rightarrow> ('a, 'p, 'v) multi_period_model outcome" where
  "build_multi_period_model self model_data_kwargs =
     (let kws = (case model_data_kwargs of
                   None \<Rightarrow> map (\<lambda>t. (t, [])) (py_range (n_time_points self))
                 | Some d \<Rightarrow> d)
      in if py_range (int (length kws)) \<noteq> sort (map fst kws)
         then (Some AssertionError, self)
         else
           (let T = py_range (n_time_points self);
                m = self\<lparr> TIME := Some T, blocks := [] \<rparr>
            in and_then (and_then (and_then
                 (create_blocks kws T m)
                 (link_blocks (py_slice_to T (n_time_points self - 1))))
                 link_periodic)
                 finish_build))"

section \<open>multiperiod.py: advance_time\<close>






section \<open>multiperiod.py: build_stochastic_multiperiod\<close>

text \<open>
  A period index: \<^verbatim>\<open>t\<close>, \<^verbatim>\<open>(t, d)\<close>, \<^verbatim>\<open>(t, y)\<close> or \<^verbatim>\<open>(t, d, y)\<close>, as the flags for
  several days and several years select.
\<close>

datatype period = T int | TD int int | TY int int | TDY int int int

text \<open>
  The calls made to the caller's functions and to the solver, in the order they are made.
  The scenario is \<open>None\<close> when the period blocks hang on the model itself.
\<close>

datatype 's event =
    Create_period "'s option" period
  | Create_throwaway
  | Initialize_throwaway
  | Solve_throwaway
  | From_json "'s option" period
  | Unfix_dof "'s option" period

text \<open>\<^verbatim>\<open>pyo.Set(initialize=xs)\<close>: insertion order, an element kept once.\<close>

definition pyo_Set :: "'a list \<Rightarrow> 'a list" where
  "pyo_Set xs = fold (\<lambda>x acc. if x \<in> set acc then acc else acc @ [x]) xs []"

text \<open>\<^verbatim>\<open>pyo.RangeSet(n)\<close> is \<open>1..n\<close>.\<close>

definition RangeSet :: "int \<Rightarrow> int list" where
  "RangeSet n = [1..n]"

text \<open>
  The arguments of \<^verbatim>\<open>build_stochastic_multiperiod\<close> and the library functions it calls.
  A flowsheet is a value of \<open>'b\<close>; the caller's functions and the solver change it in
  place, which is a function from the flowsheet before to the flowsheet after.
  \<open>solver\<close> also tells whether \<^verbatim>\<open>check_optimal_termination\<close> holds of its result.
\<close>

record ('o, 'b, 'j) build_args =
  initialization_func :: "('o \<Rightarrow> 'b \<Rightarrow> 'b) option"
  unfix_dof_func :: "('o \<Rightarrow> 'b \<Rightarrow> 'b) option"
  flowsheet_options :: 'o
  initialization_options :: 'o
  unfix_dof_options :: 'o
  solver :: "'b \<Rightarrow> 'b \<times> bool"
  empty_block :: 'b
  to_json :: "'b \<Rightarrow> 'j"
  from_json :: "'b \<Rightarrow> 'j \<Rightarrow> 'b"

text \<open>
  \<^verbatim>\<open>MultiPeriodModel\<close> built with \<^verbatim>\<open>use_stochastic_build=True\<close>. The period blocks
  are \<open>scenario[s].period[p]\<close> when scenarios are given and \<open>period[p]\<close> otherwise.
  A period block carries the same attributes a process block of the other path does;
  the flowsheet the caller's functions work on is its \<open>content\<close>.
\<close>

record ('s, 'o, 'b, 'v) stochastic_model =
  sm_n_time_points :: int
  sm_create_process_model :: "'o \<Rightarrow> 'b \<Rightarrow> 'b"
  sm_get_linking_variable_pairs :: "('b, 'v) pair_func"
  sm_get_periodic_variable_pairs :: "('b, 'v) pair_func option"
  set_time :: "int list"
  set_days :: "int list option"
  set_years :: "int list option"
  set_scenarios :: "'s list option"
  set_period :: "period list"
  scenario :: "('s \<times> (period \<times> ('b, 'v) process) list) list"
  period :: "(period \<times> ('b, 'v) process) list"
  calls :: "'s event list"

text \<open>The part of \<^verbatim>\<open>__init__\<close> that creates the sets, before the build is called.\<close>

definition init_stochastic ::
  "int \<Rightarrow> ('o \<Rightarrow> 'b \<Rightarrow> 'b) \<Rightarrow> ('b, 'v) pair_func \<Rightarrow> ('b, 'v) pair_func option
     \<Rightarrow> int list option \<Rightarrow> int list option \<Rightarrow> 's list option
     \<Rightarrow> ('s, 'o, 'b, 'v) stochastic_model" where
  "init_stochastic n process_model_func linking_variable_func periodic_variable_func
       days years scenarios =
     \<lparr> sm_n_time_points = n,
       sm_create_process_model = process_model_func,
       sm_get_linking_variable_pairs = linking_variable_func,
       sm_get_periodic_variable_pairs = periodic_variable_func,
       set_time = RangeSet n,
       set_days = map_option pyo_Set days,
       set_years = map_option pyo_Set years,
       set_scenarios = map_option pyo_Set scenarios,
       set_period = [], scenario = [], period = [], calls = [] \<rparr>"

definition on_content :: "('b \<Rightarrow> 'b) \<Rightarrow> ('b, 'v) process \<Rightarrow> ('b, 'v) process" where
  "on_content f b = b\<lparr> content := f (content b) \<rparr>"

text \<open>The list comprehensions that give the periods their order.\<close>

definition make_set_period :: "('s, 'o, 'b, 'v) stochastic_model \<Rightarrow> period list" where
  "make_set_period self =
     (case (set_years self, set_days self) of
        (Some years, Some days) \<Rightarrow>
          concat (map (\<lambda>y. concat (map (\<lambda>d. map (\<lambda>t. TDY t d y) (set_time self)) days)) years)
      | (Some years, None) \<Rightarrow>
          concat (map (\<lambda>y. map (\<lambda>t. TY t y) (set_time self)) years)
      | (None, Some days) \<Rightarrow>
          concat (map (\<lambda>d. map (\<lambda>t. TD t d) (set_time self)) days)
      | (None, None) \<Rightarrow> map T (set_time self))"

text \<open>
  \<^verbatim>\<open>_build_scenario_model\<close>: one block per element of \<open>set_period\<close>, the factory called
  on each in turn.
\<close>

definition build_scenario_model ::
  "('o, 'b, 'j) build_args \<Rightarrow> ('s, 'o, 'b, 'v) stochastic_model
     \<Rightarrow> (period \<times> ('b, 'v) process) list" where
  "build_scenario_model args self =
     map (\<lambda>p. (p, on_content (sm_create_process_model self (flowsheet_options args))
                    (new_process (empty_block args))))
       (set_period self)"

definition construct_periods ::
  "('o, 'b, 'j) build_args \<Rightarrow> ('s, 'o, 'b, 'v) stochastic_model
     \<Rightarrow> ('s, 'o, 'b, 'v) stochastic_model" where
  "construct_periods args self0 =
     (let self = self0\<lparr> set_period := pyo_Set (make_set_period self0) \<rparr> in
      case set_scenarios self of
        Some S \<Rightarrow>
          self\<lparr> scenario := map (\<lambda>s. (s, build_scenario_model args self)) S,
                calls := calls self
                         @ concat (map (\<lambda>s. map (Create_period (Some s)) (set_period self)) S) \<rparr>
      | None \<Rightarrow>
          self\<lparr> period := build_scenario_model args self,
                calls := calls self @ map (Create_period None) (set_period self) \<rparr>)"

text \<open>A loop over every period block of every scenario that applies \<open>f\<close> to the flowsheet.\<close>

definition for_all_periods ::
  "('b \<Rightarrow> 'b) \<Rightarrow> ('s option \<Rightarrow> period \<Rightarrow> 's event) \<Rightarrow> ('s, 'o, 'b, 'v) stochastic_model
     \<Rightarrow> ('s, 'o, 'b, 'v) stochastic_model" where
  "for_all_periods f ev self =
     (case set_scenarios self of
        Some S \<Rightarrow>
          self\<lparr> scenario := map (\<lambda>(s, ps). (s, map (\<lambda>(p, b). (p, on_content f b)) ps))
                               (scenario self),
                calls := calls self
                         @ concat (map (\<lambda>(s, ps). map (\<lambda>(p, b). ev (Some s) p) ps)
                                     (scenario self)) \<rparr>
      | None \<Rightarrow>
          self\<lparr> period := map (\<lambda>(p, b). (p, on_content f b)) (period self),
                calls := calls self @ map (\<lambda>(p, b). ev None p) (period self) \<rparr>)"

definition build_stochastic_multiperiod ::
  "('o, 'b, 'j) build_args \<Rightarrow> ('s, 'o, 'b, 'v) stochastic_model
     \<Rightarrow> ('s, 'o, 'b, 'v) stochastic_model outcome" where
  "build_stochastic_multiperiod args self0 =
     (let self = construct_periods args self0 in
      case initialization_func args of
        None \<Rightarrow> (None, self)
      | Some init \<Rightarrow>
          (let blk0 = sm_create_process_model self (flowsheet_options args) (empty_block args);
               blk1 = init (initialization_options args) blk0;
               (blk, optimal) = solver args blk1;
               self1 = self\<lparr> calls := calls self
                          @ [Create_throwaway, Initialize_throwaway, Solve_throwaway] \<rparr>
           in if \<not> optimal then (Some AssertionError, self1)
              else
                (let init_model = to_json args blk;
                     self2 = for_all_periods (\<lambda>b. from_json args b init_model) From_json self1
                 in case unfix_dof_func args of
                      None \<Rightarrow> (None, self2)
                    | Some unfix \<Rightarrow>
                        (None, for_all_periods (unfix (unfix_dof_options args)) Unfix_dof self2))))"

section \<open>price_taker_model.py: the clustering pipeline\<close>

text \<open>
  Prices and centroids are floating-point numbers in the source; they are reals here, and
  the threshold \<^verbatim>\<open>1e-4\<close> is \<open>1 / 10000\<close>. The only operations on them are that
  comparison and counting.
\<close>

record price_taker_model =
  seed :: int
  horizon_length :: int

text \<open>\<^verbatim>\<open>PriceTakerModel(seed=20, horizon_length=24)\<close>; the constructor checks nothing.\<close>

definition init_price_taker :: "int option \<Rightarrow> int option \<Rightarrow> price_taker_model" where
  "init_price_taker s h =
     \<lparr> seed = (case s of None \<Rightarrow> 20 | Some v \<Rightarrow> v),
       horizon_length = (case h of None \<Rightarrow> 24 | Some v \<Rightarrow> v) \<rparr>"

text \<open>The setter of \<^verbatim>\<open>horizon_length\<close>.\<close>

definition set_horizon_length :: "int \<Rightarrow> price_taker_model \<Rightarrow> error + price_taker_model" where
  "set_horizon_length v self =
     (if v \<le> 0 then Inl ValueError else Inr (self\<lparr> horizon_length := v \<rparr>))"

text \<open>\<^verbatim>\<open>range(a, b)\<close> and the positional slice \<^verbatim>\<open>xs[i:j]\<close>.\<close>

definition py_range2 :: "int \<Rightarrow> int \<Rightarrow> int list" where
  "py_range2 a b = [a..b - 1]"

definition py_slice :: "'a list \<Rightarrow> int \<Rightarrow> int \<Rightarrow> 'a list" where
  "py_slice xs i j =
     (let n = int (length xs);
          lo = (if i < 0 then max 0 (n + i) else min n i);
          hi = (if j < 0 then max 0 (n + j) else min n j)
      in take (nat (hi - lo)) (drop (nat lo) xs))"

text \<open>
  The raw price table: its columns in order, each a label and the values of its rows.
  Column labels are distinct and the columns have one length.
\<close>

type_synonym dataframe = "(string \<times> real list) list"

definition df_len :: "dataframe \<Rightarrow> nat" where
  "df_len df = (case df of [] \<Rightarrow> 0 | c # _ \<Rightarrow> length (snd c))"

text \<open>
  The daily table: its columns in order, labelled by the day; \<open>None\<close> is a column that
  was declared and never assigned (it holds no number).
\<close>

type_synonym daily_frame = "(int \<times> real list option) list"

text \<open>
  The loop of \<^verbatim>\<open>generate_daily_data\<close>. With a horizon length that is not positive the
  condition \<^verbatim>\<open>j <= len(raw_data)\<close> never fails and the loop does not return: that is
  the value \<open>None\<close>.
\<close>

partial_function (option) daily_loop ::
  "int \<Rightarrow> real list \<Rightarrow> int \<Rightarrow> int \<Rightarrow> int \<Rightarrow> daily_frame \<Rightarrow> daily_frame option" where
  "daily_loop h raw_data i j day daily_data =
     (if j \<le> int (length raw_data)
      then daily_loop h raw_data j (j + h) (day + 1)
             (AList.update day (Some (py_slice raw_data i j)) daily_data)
      else Some daily_data)"

declare daily_loop.simps [code]

definition generate_daily_data ::
  "price_taker_model \<Rightarrow> real list \<Rightarrow> int list \<Rightarrow> daily_frame option" where
  "generate_daily_data self raw_data day_list =
     daily_loop (horizon_length self) raw_data 0 (horizon_length self) 1
       (map (\<lambda>d. (d, None)) day_list)"

text \<open>
  \<^verbatim>\<open>reconfigure_raw_data\<close>: the day list is computed from the table's length, and the
  loop over \<^verbatim>\<open>scenarios[0:1]\<close> reshapes the third column when there is one.
\<close>

definition reconfigure_raw_data ::
  "price_taker_model \<Rightarrow> dataframe \<Rightarrow> (error + daily_frame \<times> string list) option" where
  "reconfigure_raw_data self raw_data =
     (let column_head = map fst raw_data;
          scenarios = drop 2 column_head
      in if horizon_length self = 0 then Some (Inl ZeroDivisionError)
         else
           (let day_list = py_range2 1 (int (df_len raw_data) div horizon_length self + 1)
            in case drop 2 raw_data of
                 [] \<Rightarrow> Some (Inl UnboundLocalError)
               | (i, column) # _ \<Rightarrow>
                   map_option (\<lambda>daily_data. Inr (daily_data, scenarios))
                     (generate_daily_data self column day_list)))"

text \<open>
  The libraries. \<open>'g\<close> is the state of numpy's global random generator, which
  \<^verbatim>\<open>np.random.seed\<close> sets and which \<^verbatim>\<open>KMeans(n_clusters=k).fit(X)\<close>, given no
  \<^verbatim>\<open>random_state\<close>, reads and advances. A fit may raise.
\<close>

record kmeans_fit =
  cluster_centers :: "real list list"
  labels :: "int list"
  inertia :: real

record 'g libraries =
  random_seed :: "int \<Rightarrow> 'g"
  KMeans :: "'g \<Rightarrow> int \<Rightarrow> real list list \<Rightarrow> (error + kmeans_fit) \<times> 'g"
  KneeLocator :: "int list \<Rightarrow> real list \<Rightarrow> error + int option"

text \<open>
  \<^verbatim>\<open>KMeans(n_clusters=k).fit(daily_data.transpose())\<close>: one point per day; a table with
  a column that holds no number is refused.
\<close>

definition fit_kmeans ::
  "'g libraries \<Rightarrow> 'g \<Rightarrow> int \<Rightarrow> daily_frame \<Rightarrow> (error + kmeans_fit) \<times> 'g" where
  "fit_kmeans libs g k daily_data =
     (case those (map snd daily_data) of
        None \<Rightarrow> (Inl ValueError, g)
      | Some X \<Rightarrow> KMeans libs g k X)"

fun inertia_loop ::
  "'g libraries \<Rightarrow> daily_frame \<Rightarrow> int list \<Rightarrow> real list \<Rightarrow> 'g \<Rightarrow> (error + real list) \<times> 'g" where
  "inertia_loop libs daily_data [] inertia_values g = (Inr inertia_values, g)"
| "inertia_loop libs daily_data (k # ks) inertia_values g =
     (case fit_kmeans libs g k daily_data of
        (Inl e, g') \<Rightarrow> (Inl e, g')
      | (Inr kmeans, g') \<Rightarrow>
          inertia_loop libs daily_data ks (inertia_values @ [inertia kmeans]) g')"

text \<open>
  \<^verbatim>\<open>get_optimal_n_clusters\<close> (the plot left out). \<^verbatim>\<open>elbow_point.knee\<close> is \<open>None\<close> when
  no knee is found, and \<^verbatim>\<open>n_clusters + 2 >= kmax\<close> is then a TypeError.
\<close>

definition get_optimal_n_clusters ::
  "'g libraries \<Rightarrow> price_taker_model \<Rightarrow> daily_frame \<Rightarrow> int option \<Rightarrow> int option \<Rightarrow> 'g
     \<Rightarrow> (error + int \<times> real list) \<times> 'g" where
  "get_optimal_n_clusters libs self daily_data kmin0 kmax0 g0 =
     (let kmin = (case kmin0 of None \<Rightarrow> 4 | Some k \<Rightarrow> k);
          kmax = (case kmax0 of None \<Rightarrow> 30 | Some k \<Rightarrow> k);
          k_values = py_range2 kmin kmax;
          g = random_seed libs (seed self)
      in case inertia_loop libs daily_data k_values [] g of
           (Inl e, g') \<Rightarrow> (Inl e, g')
         | (Inr inertia_values, g') \<Rightarrow>
             (case KneeLocator libs k_values inertia_values of
                Inl e \<Rightarrow> (Inl e, g')
              | Inr None \<Rightarrow> (Inl TypeError, g')
              | Inr (Some n_clusters) \<Rightarrow> (Inr (n_clusters, inertia_values), g')))"

text \<open>
  The snapping loops of \<^verbatim>\<open>cluster_lmp_data\<close>: \<^verbatim>\<open>for d in range(n_clusters)\<close>,
  \<^verbatim>\<open>for t in range(24)\<close>. The indices come from \<^verbatim>\<open>range\<close> and are not negative;
  one past the end of a row is an IndexError.
\<close>

fun snap_row :: "int list \<Rightarrow> real list \<Rightarrow> error + real list" where
  "snap_row [] row = Inr row"
| "snap_row (t # ts) row =
     (if t < int (length row)
      then snap_row ts (if row ! nat t < 1 / 10000 then row[nat t := 0] else row)
      else Inl IndexError)"

fun snap_centroids :: "int list \<Rightarrow> real list list \<Rightarrow> error + real list list" where
  "snap_centroids [] centroids = Inr centroids"
| "snap_centroids (d # ds) centroids =
     (if d < int (length centroids)
      then (case snap_row (py_range 24) (centroids ! nat d) of
              Inl e \<Rightarrow> Inl e
            | Inr row \<Rightarrow> snap_centroids ds (centroids[nat d := row]))
      else Inl IndexError)"

text \<open>
  The counting loops: \<^verbatim>\<open>for j in range(len(labels))\<close>, \<^verbatim>\<open>for k in n_clusters_list\<close>,
  \<^verbatim>\<open>if labels[j] == k: weights_counter[k] += 1\<close>.
\<close>

definition count_weights :: "int \<Rightarrow> int list \<Rightarrow> real list" where
  "count_weights n_clusters labs =
     fold (\<lambda>l w. fold (\<lambda>k w. if l = k then w[nat k := w ! nat k + 1] else w)
                    (py_range n_clusters) w)
       labs (replicate (nat n_clusters) 0)"

text \<open>
  \<^verbatim>\<open>cluster_lmp_data\<close>. The result is \<^verbatim>\<open>lmp_data[d][t]\<close> for the days \<open>1..n_clusters\<close>
  and the rows from \<open>0\<close>, and \<^verbatim>\<open>weights[0][d]\<close>. The argument \<^verbatim>\<open>scenarios\<close> is
  overwritten before it is read.
\<close>

type_synonym lmp_table = "(int \<times> (int \<times> real) list) list"

definition cluster_lmp_data ::
  "'g libraries \<Rightarrow> price_taker_model \<Rightarrow> dataframe \<Rightarrow> int \<Rightarrow> 'x \<Rightarrow> 'g
     \<Rightarrow> ((error + lmp_table \<times> lmp_table) \<times> 'g) option" where
  "cluster_lmp_data libs self raw_data n_clusters scenarios0 g =
     (case reconfigure_raw_data self raw_data of
        None \<Rightarrow> None
      | Some (Inl e) \<Rightarrow> Some (Inl e, g)
      | Some (Inr (daily_data, scenarios)) \<Rightarrow>
          (case fit_kmeans libs g n_clusters daily_data of
             (Inl e, g') \<Rightarrow> Some (Inl e, g')
           | (Inr kmeans, g') \<Rightarrow>
               (case snap_centroids (py_range n_clusters) (cluster_centers kmeans) of
                  Inl e \<Rightarrow> Some (Inl e, g')
                | Inr centroids \<Rightarrow>
                    (let weights_counter = count_weights n_clusters (labels kmeans)
                     in if int (length centroids) \<noteq> n_clusters then Some (Inl ValueError, g')
                        else
                          (let lmp_data = zip (py_range2 1 (n_clusters + 1))
                                            (map enumerate_py centroids);
                               weights = [(0, zip (py_range2 1 (int (length weights_counter) + 1))
                                                weights_counter)]
                           in Some (Inr (lmp_data, weights), g'))))))"

section \<open>Auxiliary notions for the proofs\<close>

text \<open>
  The \<open>d\<close>-th block of \<open>H\<close> samples of a series, and the daily table after the days of
  a list have been assigned.
\<close>

definition day_block :: "nat \<Rightarrow> real list \<Rightarrow> nat \<Rightarrow> real list" where
  "day_block H raw d = take H (drop (d * H) raw)"

definition fill_days :: "nat \<Rightarrow> real list \<Rightarrow> nat list \<Rightarrow> daily_frame \<Rightarrow> daily_frame" where
  "fill_days H raw ds df = fold (\<lambda>d. AList.update (int d + 1) (Some (day_block H raw d))) ds df"

text \<open>One pass of the inner counting loop: the counter of label \<open>l\<close> goes up by one.\<close>

definition bump :: "int \<Rightarrow> int \<Rightarrow> real list \<Rightarrow> real list" where
  "bump n l w = (if 0 \<le> l \<and> l < n then w[nat l := w ! nat l + 1] else w)"








section \<open>Example inputs\<close>

text \<open>
  A model whose factory returns the number of keyword arguments it was given; one pair
  of variables links two periods and, with periodic coupling, one pair closes the horizon.
\<close>

definition example_model :: "int \<Rightarrow> bool \<Rightarrow> (unit, int, string) multi_period_model" where
  "example_model n periodic =
     init_model n (\<lambda>kw. int (length kw)) (\<lambda>b1 b2. [(''soc_out'', ''soc_in'')])
       (if periodic then Some (\<lambda>b1 b2. [(''soc_end'', ''soc_start'')]) else None)"

text \<open>
  A stand-in for the libraries. The generator state is a counter that every fit advances.
  A fit takes the first \<open>k\<close> points as the centres and gives point \<open>i\<close> the label
  \<open>min i (k - 1)\<close>; on an odd generator state the clusters are numbered the other way
  round, as a different random initialisation numbers the same clusters differently.
  No knee is found.
\<close>

definition example_libraries :: "nat libraries" where
  "example_libraries =
     \<lparr> random_seed = (\<lambda>s. nat s),
       KMeans = (\<lambda>g k X.
         if k \<le> 0 \<or> int (length X) < k then (Inl ValueError, g)
         else (Inr \<lparr> cluster_centers = (if even g then take (nat k) X else rev (take (nat k) X)),
                     labels = map (\<lambda>i. if even g then min (int i) (k - 1)
                                          else k - 1 - min (int i) (k - 1)) [0..<length X],
                     inertia = 0 \<rparr>, Suc g)),
       KneeLocator = (\<lambda>ks vs. Inr None) \<rparr>"

text \<open>A price table: a date column, an hour column and the price column.\<close>

definition example_prices :: "real list \<Rightarrow> dataframe" where
  "example_prices col =
     [(''date'', replicate (length col) 0), (''hour'', replicate (length col) 0), (''price'', col)]"

text \<open>
  A stochastic build of two time points. A flowsheet is the list of what was done to it;
  the solver converges or not as the argument says.
\<close>

definition example_args :: "bool \<Rightarrow> (unit, string list, string list) build_args" where
  "example_args converges =
     \<lparr> initialization_func = Some (\<lambda>opts b. b @ [''initialized'']),
       unfix_dof_func = Some (\<lambda>opts b. b @ [''unfixed'']),
       flowsheet_options = (), initialization_options = (), unfix_dof_options = (),
       solver = (\<lambda>b. (b @ [''solved''], converges)),
       empty_block = [],
       to_json = (\<lambda>b. b),
       from_json = (\<lambda>b j. b @ ''loaded'' # j) \<rparr>"

definition example_stochastic ::
  "string list option \<Rightarrow> (string, unit, string list, string) stochastic_model" where
  "example_stochastic scenarios =
     init_stochastic 2 (\<lambda>opts b. b @ [''flowsheet'']) (\<lambda>b1 b2. [(''soc_out'', ''soc_in'')]) None
       None None scenarios"

section \<open>Results: the per-index keyword arguments\<close>

text \<open>
  C4. A build whose per-index keyword arguments do not have exactly the keys
  \<open>0..n-1\<close> is to stop before any period block is constructed. The source asserts that
  the keys are \<open>0..len(model_data_kwargs)-1\<close>, not \<open>0..n_time_points-1\<close>: with two
  time points and the single key \<open>0\<close> the assertion passes, the block of period \<open>0\<close> is
  constructed, and the lookup of key \<open>1\<close> then raises a KeyError.
\<close>

theorem build_short_kwargs_partial:
  "fst (build_multi_period_model (example_model 2 False) (Some [(0, [])])) = Some (KeyError 1)
   \<and> map fst (blocks (snd (build_multi_period_model (example_model 2 False) (Some [(0, [])]))))
       = [0]"
  by code_simp

section \<open>Results: the clustering pipeline\<close>

text \<open>
  C5. Two calls of \<open>cluster_lmp_data\<close> on the same input are to return the same
  representative days and weights, the configured seed being used by every clustering
  call. \<open>cluster_lmp_data\<close> never reads the seed and never sets the generator (only
  \<open>get_optimal_n_clusters\<close> does): the second call starts from the generator state the
  first one left, and with a fit whose cluster numbering depends on that state the two
  results differ.
\<close>

theorem cluster_lmp_data_not_reseeded:
  "(let self = \<lparr> seed = 20, horizon_length = 24 \<rparr>;
        raw_data = example_prices (replicate 24 1 @ replicate 24 2);
        first_call = the (cluster_lmp_data example_libraries self raw_data 2 () 0);
        second_call = the (cluster_lmp_data example_libraries self raw_data 2 () (snd first_call))
    in fst first_call \<noteq> fst second_call)"
  by code_simp

text \<open>
  C7. Every entry of every returned representative day, for any horizon length, is to be
  at least \<open>1e-4\<close> or exactly \<open>0\<close>. The snapping loop runs over \<^verbatim>\<open>range(24)\<close> whatever
  the horizon length is: with a horizon of 25 samples the entry at row 24 is returned as it
  is, here \<open>1/20000\<close>, and with a horizon of 12 samples the loop reads past the end of
  the centroid.
\<close>

theorem cluster_lmp_data_entry_not_snapped:
  "(case cluster_lmp_data example_libraries \<lparr> seed = 20, horizon_length = 25 \<rparr>
           (example_prices (replicate 24 1 @ [1 / 20000])) 1 () 0 of
      Some (Inr (lmp_data, weights), g) \<Rightarrow> Option.bind (map_of lmp_data 1) (\<lambda>day. map_of day 24)
    | _ \<Rightarrow> None) = Some (1 / 20000)
   \<and> fst (the (cluster_lmp_data example_libraries \<lparr> seed = 20, horizon_length = 12 \<rparr>
                 (example_prices (replicate 12 1)) 1 () 0)) = Inl IndexError"
  by code_simp

text \<open>
  C10. \<open>get_optimal_n_clusters\<close> returns a cluster count only when the knee detector
  finds a knee; when every fit succeeds and the detector finds none, the comparison of
  \<open>None + 2\<close> with \<open>kmax\<close> raises a TypeError and the call returns nothing.
\<close>

theorem get_optimal_n_clusters_needs_knee:
  "(get_optimal_n_clusters libs self daily_data kmin0 kmax0 g0 = (Inr (n, iv), g')
      \<longrightarrow> KneeLocator libs
            (py_range2 (case kmin0 of None \<Rightarrow> 4 | Some k \<Rightarrow> k)
                       (case kmax0 of None \<Rightarrow> 30 | Some k \<Rightarrow> k)) iv = Inr (Some n))
   \<and> (inertia_loop libs daily_data
          (py_range2 (case kmin0 of None \<Rightarrow> 4 | Some k \<Rightarrow> k)
                     (case kmax0 of None \<Rightarrow> 30 | Some k \<Rightarrow> k))
          [] (random_seed libs (seed self)) = (Inr iv, g')
        \<and> KneeLocator libs
            (py_range2 (case kmin0 of None \<Rightarrow> 4 | Some k \<Rightarrow> k)
                       (case kmax0 of None \<Rightarrow> 30 | Some k \<Rightarrow> k)) iv = Inr None
      \<longrightarrow> get_optimal_n_clusters libs self daily_data kmin0 kmax0 g0 = (Inl TypeError, g'))"
  unfolding get_optimal_n_clusters_def
  by (auto simp: Let_def split: prod.splits sum.splits option.splits)

theorem get_optimal_n_clusters_needs_knee_witness:
  "get_optimal_n_clusters example_libraries \<lparr> seed = 20, horizon_length = 2 \<rparr>
       [(1, Some [1, 2]), (2, Some [3, 4])] (Some 1) (Some 3) 0 = (Inl TypeError, 22)
   \<and> get_optimal_n_clusters (example_libraries\<lparr> KneeLocator := \<lambda>ks vs. Inr (Some 2) \<rparr>)
       \<lparr> seed = 20, horizon_length = 2 \<rparr>
       [(1, Some [1, 2]), (2, Some [3, 4])] (Some 1) (Some 3) 0 = (Inr (2, [0, 0]), 22)
   \<and> KneeLocator (example_libraries\<lparr> KneeLocator := \<lambda>ks vs. Inr (Some 2) \<rparr>)
       (py_range2 1 3) [0, 0] = Inr (Some (2 :: int))"
proof -
  let ?self = "\<lparr> seed = 20, horizon_length = 2 \<rparr>"
  let ?daily = "[(1, Some [1, 2]), (2, Some [3, 4])] :: daily_frame"
  let ?libs = "example_libraries\<lparr> KneeLocator := \<lambda>ks vs. Inr (Some 2) \<rparr>"
  have loop: "inertia_loop example_libraries ?daily (py_range2 1 3) []
                (random_seed example_libraries (seed ?self)) = (Inr [0, 0], 22)
              \<and> KneeLocator example_libraries (py_range2 1 3) [0, 0] = Inr None"
    by code_simp
  have ret: "get_optimal_n_clusters ?libs ?self ?daily (Some 1) (Some 3) 0 = (Inr (2, [0, 0]), 22)"
    by code_simp
  from get_optimal_n_clusters_needs_knee
         [of example_libraries ?self ?daily "Some 1" "Some 3" 0 2 "[0, 0]" 22] loop
  have a: "get_optimal_n_clusters example_libraries ?self ?daily (Some 1) (Some 3) 0
             = (Inl TypeError, 22)"
    by simp
  from get_optimal_n_clusters_needs_knee
         [of ?libs ?self ?daily "Some 1" "Some 3" 0 2 "[0, 0]" 22] ret
  have b: "KneeLocator ?libs (py_range2 1 3) [0, 0] = Inr (Some 2)"
    by simp
  from a ret b show ?thesis by simp
qed

section \<open>The daily table\<close>

lemma py_slice_block:
  assumes "Suc d * H \<le> length raw"
  shows "py_slice raw (int (d * H)) (int (Suc d * H)) = day_block H raw d"
proof -
  have 1: "d * H \<le> length raw" using assms by simp
  have 2: "nat (int (Suc d * H) - int (d * H)) = H" by simp
  have 3: "min (int (length raw)) (int (d * H)) = int (d * H)"
    using 1 by (simp only: min_def of_nat_le_iff) simp
  have 4: "min (int (length raw)) (int (Suc d * H)) = int (Suc d * H)"
    using assms by (simp only: min_def of_nat_le_iff) simp
  show ?thesis
    unfolding py_slice_def day_block_def Let_def
    by (simp only: 2 3 4 of_nat_less_0_iff if_False nat_int)
qed


lemma daily_loop_closed:
  assumes "0 < H" "k \<le> length raw div H"
  shows "daily_loop (int H) raw (int (k * H)) (int (Suc k * H)) (int k + 1) df
         = Some (fill_days H raw [k..<length raw div H] df)"
  using assms(2)
proof (induction "length raw div H - k" arbitrary: k df)
  case 0
  then have k: "k = length raw div H" by simp
  have "length raw < Suc k * H"
    using assms(1) k by (simp add: dividend_less_div_times)
  then have "\<not> int (Suc k * H) \<le> int (length raw)" by (simp only: of_nat_le_iff not_le)
  then show ?case
    using k by (subst daily_loop.simps) (simp only: fill_days_def if_False upt_rec[of k k] fold.simps id_apply, simp)
next
  case (Suc x)
  then have lt: "k < length raw div H" by simp
  then have "Suc k \<le> length raw div H" by simp
  then have le: "Suc k * H \<le> length raw"
    using assms(1) by (simp add: less_eq_div_iff_mult_less_eq)
  have ih: "daily_loop (int H) raw (int (Suc k * H)) (int (Suc (Suc k) * H)) (int (Suc k) + 1) df'
         = Some (fill_days H raw [Suc k..<length raw div H] df')" for df'
    using Suc(1)[of "Suc k" df'] Suc(2) lt by simp
  have step: "int (Suc k * H) + int H = int (Suc (Suc k) * H)" by simp
  have day: "int k + 1 + 1 = int (Suc k) + 1" by simp
  have "daily_loop (int H) raw (int (k * H)) (int (Suc k * H)) (int k + 1) df
        = daily_loop (int H) raw (int (Suc k * H)) (int (Suc (Suc k) * H)) (int (Suc k) + 1)
            (AList.update (int k + 1) (Some (day_block H raw k)) df)"
    using le by (subst daily_loop.simps) (simp only: step day py_slice_block of_nat_le_iff if_True)
  also have "\<dots> = Some (fill_days H raw [k..<length raw div H] df)"
    using lt by (simp only: ih) (simp add: upt_conv_Cons fill_days_def)
  finally show ?case .
qed

lemma fill_days_map_of:
  "map_of (fill_days H raw [k..<q] df) x =
     (if int k + 1 \<le> x \<and> x \<le> int q then Some (Some (day_block H raw (nat (x - 1)))) else map_of df x)"
proof (induction "q - k" arbitrary: k df)
  case 0
  then have "q \<le> k" by simp
  then have nil: "[k..<q] = []" by simp
  show ?case
  proof (cases "int k + 1 \<le> x \<and> x \<le> int q")
    case True
    with \<open>q \<le> k\<close> have False by linarith
    then show ?thesis ..
  next
    case False
    then show ?thesis unfolding nil fill_days_def by (simp only: fold.simps id_apply if_False)
  qed
next
  case (Suc n)
  then have lt: "k < q" by simp
  have ih: "map_of (fill_days H raw [Suc k..<q] df') x =
     (if int (Suc k) + 1 \<le> x \<and> x \<le> int q then Some (Some (day_block H raw (nat (x - 1)))) else map_of df' x)" for df'
    using Suc(1)[of "Suc k" df'] Suc(2) by simp
  have unf: "fill_days H raw [k..<q] df = fill_days H raw [Suc k..<q] (AList.update (int k + 1) (Some (day_block H raw k)) df)"
    using lt by (simp add: upt_conv_Cons fill_days_def)
  show ?case
    unfolding unf ih using lt by (auto simp: update_conv')
qed

lemma fill_days_keys:
  "fst ` set (fill_days H raw ds df) = fst ` set df \<union> (\<lambda>d. int d + 1) ` set ds"
  unfolding fill_days_def
  by (induction ds arbitrary: df) (auto simp: dom_update)

lemma fill_days_distinct:
  "distinct (map fst df) \<Longrightarrow> distinct (map fst (fill_days H raw ds df))"
  unfolding fill_days_def
  by (induction ds arbitrary: df) (auto simp: distinct_update)

lemma fill_days_same_keys:
  "(\<lambda>d. int d + 1) ` set ds \<subseteq> fst ` set df \<Longrightarrow> map fst (fill_days H raw ds df) = map fst df"
  unfolding fill_days_def
proof (induction ds arbitrary: df)
  case Nil then show ?case by simp
next
  case (Cons d ds)
  have k: "map fst (AList.update (int d + 1) (Some (day_block H raw d)) df) = map fst df"
    using Cons.prems by (simp add: update_keys)
  then have "fst ` set (AList.update (int d + 1) (Some (day_block H raw d)) df) = fst ` set df"
    by (metis list.set_map)
  with Cons show ?case using k by simp
qed

lemma generate_daily_data_shape:
  assumes "0 < horizon_length self"
    and "distinct day_list"
    and "set day_list \<subseteq> {1..int (length raw_data) div horizon_length self}"
  shows "\<exists>daily_data.
           generate_daily_data self raw_data day_list = Some daily_data
         \<and> distinct (map fst daily_data)
         \<and> set (map fst daily_data) = {1..int (length raw_data) div horizon_length self}
         \<and> int (length daily_data) = int (length raw_data) div horizon_length self
         \<and> (\<forall>d\<in>{1..int (length raw_data) div horizon_length self}.
               map_of daily_data d
                 = Some (Some (take (nat (horizon_length self))
                                 (drop (nat ((d - 1) * horizon_length self)) raw_data))))
         \<and> (day_list = py_range2 1 (int (length raw_data) div horizon_length self + 1)
              \<longrightarrow> map fst daily_data = day_list)"
proof -
  define H where "H = nat (horizon_length self)"
  define q where "q = length raw_data div H"
  define df0 :: daily_frame where "df0 = map (\<lambda>d. (d, None)) day_list"
  define df where "df = fill_days H raw_data [0..<q] df0"
  have H: "0 < H" "horizon_length self = int H" using assms(1) by (simp_all add: H_def)
  have qdiv: "int (length raw_data) div horizon_length self = int q"
    by (simp add: H q_def zdiv_int)
  have gen: "generate_daily_data self raw_data day_list = Some df"
    using daily_loop_closed[OF H(1), of 0 raw_data df0]
    by (simp add: generate_daily_data_def H(2) df_def df0_def q_def)
  have keys0: "map fst df0 = day_list" by (simp add: df0_def comp_def)
  have dist: "distinct (map fst df)"
    unfolding df_def using assms(2) keys0 by (simp add: fill_days_distinct)
  have img: "(\<lambda>d. int d + 1) ` {0..<q} = {1..int q}"
  proof (rule set_eqI)
    fix x
    show "x \<in> (\<lambda>d. int d + 1) ` {0..<q} \<longleftrightarrow> x \<in> {1..int q}"
    proof
      assume "x \<in> (\<lambda>d. int d + 1) ` {0..<q}" then show "x \<in> {1..int q}" by auto
    next
      assume "x \<in> {1..int q}"
      then have "nat (x - 1) \<in> {0..<q}" "x = int (nat (x - 1)) + 1" by auto
      then show "x \<in> (\<lambda>d. int d + 1) ` {0..<q}" by blast
    qed
  qed
  have keys: "set (map fst df) = {1..int q}"
    using assms(3) keys0 unfolding df_def qdiv
    by (simp only: list.set_map fill_days_keys set_upt img) (metis list.set_map sup.orderE sup_commute)
  have len: "int (length df) = int q"
    using dist keys by (metis distinct_card length_map card_atLeastAtMost_int
        add_diff_cancel_right' nat_int of_nat_eq_iff diff_add_cancel add.commute)
  have cols: "map_of df d = Some (Some (take (nat (horizon_length self))
                                 (drop (nat ((d - 1) * horizon_length self)) raw_data)))"
    if "d \<in> {1..int q}" for d
  proof -
    have "nat ((d - 1) * int H) = nat (d - 1) * H"
      using that by (simp add: nat_mult_distrib)
    then show ?thesis
      using that unfolding df_def H(2) by (simp add: fill_days_map_of day_block_def)
  qed
  have same: "map fst df = day_list" if "day_list = py_range2 1 (int q + 1)"
  proof -
    have "set day_list = {1..int q}" using that by (simp add: py_range2_def)
    then have "(\<lambda>d. int d + 1) ` set [0..<q] \<subseteq> fst ` set df0"
      using img keys0 by (metis list.set_map set_upt order_refl)
    then show ?thesis unfolding df_def using keys0 by (simp add: fill_days_same_keys)
  qed
  show ?thesis
  proof (intro exI[of _ df] conjI)
    show "generate_daily_data self raw_data day_list = Some df" by (rule gen)
    show "distinct (map fst df)" by (rule dist)
    show "set (map fst df) = {1..int (length raw_data) div horizon_length self}"
      unfolding qdiv by (rule keys)
    show "int (length df) = int (length raw_data) div horizon_length self"
      unfolding qdiv by (rule len)
    show "\<forall>d\<in>{1..int (length raw_data) div horizon_length self}.
            map_of df d = Some (Some (take (nat (horizon_length self))
                                 (drop (nat ((d - 1) * horizon_length self)) raw_data)))"
      unfolding qdiv using cols by blast
    show "day_list = py_range2 1 (int (length raw_data) div horizon_length self + 1)
            \<longrightarrow> map fst df = day_list"
      unfolding qdiv using same by blast
  qed
qed

text \<open>With a horizon length that is not positive the loop does not return.\<close>

lemma daily_loop_diverges:
  assumes "daily_loop h raw i j day df = Some y"
  shows "\<not> (h \<le> 0 \<and> j \<le> int (length raw))"
  using assms
proof (induction rule: daily_loop.raw_induct[rotated 1, consumes 1])
  case (1 f h raw i j day df y)
  show ?case
  proof (cases "j \<le> int (length raw)")
    case True
    with 1(2) have "f h raw j (j + h) (day + 1)
             (AList.update day (Some (py_slice raw i j)) df) = Some y" by simp
    from 1(1)[OF this] True show ?thesis by auto
  next
    case False then show ?thesis by simp
  qed
qed

lemma generate_daily_data_diverges:
  "horizon_length self \<le> 0 \<Longrightarrow> generate_daily_data self raw_data day_list = None"
  unfolding generate_daily_data_def
  using daily_loop_diverges[of "horizon_length self" raw_data 0 "horizon_length self" 1]
  by (metis not_None_eq of_nat_0_le_iff order_trans)

text \<open>
  C8. For a positive horizon length \<open>generate_daily_data\<close> cuts the series into consecutive
  blocks of \<open>horizon_length\<close> samples, one column per day: the columns are the days
  \<open>1..len(raw_data) // horizon_length\<close>, day \<open>d\<close> holds the samples from
  \<open>(d - 1) * horizon_length\<close> on, and the samples after the last whole block are in no
  column. The declared columns \<open>day_list\<close> are distinct days of that range, as the list
  \<^verbatim>\<open>range(1, len(raw_data) // horizon_length + 1)\<close> that \<open>reconfigure_raw_data\<close> passes
  is; with that list the columns are in the order of the days. A series of 48 samples and
  a horizon of 24 give exactly the two columns of days 1 and 2.
\<close>

theorem generate_daily_data_columns:
  assumes "0 < horizon_length self"
    and "distinct day_list"
    and "set day_list \<subseteq> {1..int (length raw_data) div horizon_length self}"
  shows "\<exists>daily_data.
           generate_daily_data self raw_data day_list = Some daily_data
         \<and> distinct (map fst daily_data)
         \<and> set (map fst daily_data) = {1..int (length raw_data) div horizon_length self}
         \<and> int (length daily_data) = int (length raw_data) div horizon_length self
         \<and> (\<forall>d\<in>{1..int (length raw_data) div horizon_length self}.
               map_of daily_data d
                 = Some (Some (take (nat (horizon_length self))
                                 (drop (nat ((d - 1) * horizon_length self)) raw_data))))
         \<and> (day_list = py_range2 1 (int (length raw_data) div horizon_length self + 1)
              \<longrightarrow> map fst daily_data = day_list)"
  using assms by (rule generate_daily_data_shape)

theorem generate_daily_data_columns_witness:
  "map_option (map fst)
     (generate_daily_data \<lparr> seed = 20, horizon_length = 24 \<rparr> (map real [0..<48]) (py_range2 1 3))
     = Some [1, 2]
   \<and> Option.bind
       (generate_daily_data \<lparr> seed = 20, horizon_length = 24 \<rparr> (map real [0..<48]) (py_range2 1 3))
       (\<lambda>daily_data. map_of daily_data 2) = Some (Some (map real [24..<48]))"
proof -
  let ?self = "\<lparr> seed = 20, horizon_length = 24 \<rparr>"
  let ?raw = "map real [0..<48]"
  have h: "0 < horizon_length ?self" "distinct (py_range2 1 3)"
     "set (py_range2 1 3) \<subseteq> {1..int (length ?raw) div horizon_length ?self}"
     "py_range2 1 3 = py_range2 1 (int (length ?raw) div horizon_length ?self + 1)"
     "2 \<in> {1..int (length ?raw) div horizon_length ?self}"
    by (simp_all add: py_range2_def)
  from generate_daily_data_columns[OF h(1) h(2) h(3)]
  obtain dd where dd: "generate_daily_data ?self ?raw (py_range2 1 3) = Some dd"
    and k: "py_range2 1 3 = py_range2 1 (int (length ?raw) div horizon_length ?self + 1)
              \<longrightarrow> map fst dd = py_range2 1 3"
    and v: "\<forall>d\<in>{1..int (length ?raw) div horizon_length ?self}.
               map_of dd d = Some (Some (take (nat (horizon_length ?self))
                                 (drop (nat ((d - 1) * horizon_length ?self)) ?raw)))"
    by blast
  from k h(4) have "map fst dd = py_range2 1 3" by blast
  then have a: "map fst dd = [1, 2]" by (simp add: py_range2_def upto.simps)
  from v h(5) have "map_of dd 2 = Some (Some (take (nat (horizon_length ?self))
                                 (drop (nat ((2 - 1) * horizon_length ?self)) ?raw)))"
    by blast
  then have b: "map_of dd 2 = Some (Some (map real [24..<48]))"
    by (simp add: drop_map take_map)
  from dd a b show ?thesis by simp
qed

section \<open>The weights of the representative days\<close>

lemma fold_if_eq:
  "distinct ks \<Longrightarrow> fold (\<lambda>k w. if l = k then f k w else w) ks w = (if l \<in> set ks then f l w else w)"
  by (induction ks arbitrary: w) auto

lemma count_inner:
  "fold (\<lambda>k w. if l = k then w[nat k := w ! nat k + 1] else w) (py_range n) w
     = (if 0 \<le> l \<and> l < n then w[nat l := w ! nat l + (1::real)] else w)"
  by (subst fold_if_eq) (auto simp: py_range_def)

lemma sum_list_bump:
  "i < length w \<Longrightarrow> sum_list (w[i := w ! i + (1::real)]) = sum_list w + 1"
  by (induction w arbitrary: i) (auto split: nat.splits)


lemma count_weights_alt: "count_weights n labs = fold (bump n) labs (replicate (nat n) 0)"
proof -
  have "(\<lambda>l w. fold (\<lambda>k w. if l = k then w[nat k := w ! nat k + 1] else w) (py_range n) w)
          = bump n"
    by (intro ext) (simp only: count_inner bump_def)
  then show ?thesis unfolding count_weights_def by simp
qed

lemma length_bump [simp]: "length (bump n l w) = length w"
  by (simp add: bump_def)

lemma length_fold_bump: "length (fold (bump n) labs w) = length w"
  by (induction labs arbitrary: w) simp_all

lemma nth_bump:
  "length w = nat n \<Longrightarrow> c < nat n \<Longrightarrow> bump n l w ! c = w ! c + (if l = int c then 1 else 0)"
  by (auto simp: bump_def nth_list_update)

lemma nth_fold_bump:
  "length w = nat n \<Longrightarrow> c < nat n \<Longrightarrow>
     fold (bump n) labs w ! c = w ! c + real (count_list labs (int c))"
proof (induction labs arbitrary: w)
  case Nil
  then show ?case by simp
next
  case (Cons l labs)
  have "fold (bump n) (l # labs) w ! c = bump n l w ! c + real (count_list labs (int c))"
    using Cons.IH[of "bump n l w"] Cons.prems by simp
  also have "\<dots> = w ! c + real (count_list (l # labs) (int c))"
    using Cons.prems by (simp add: nth_bump)
  finally show ?case .
qed

lemma sum_list_bump':
  "length w = nat n \<Longrightarrow> 0 \<le> l \<Longrightarrow> l < n \<Longrightarrow> sum_list (bump n l w) = sum_list w + 1"
  by (simp add: bump_def sum_list_bump)

lemma sum_fold_bump:
  "length w = nat n \<Longrightarrow> \<forall>l\<in>set labs. 0 \<le> l \<and> l < n \<Longrightarrow>
     sum_list (fold (bump n) labs w) = sum_list w + real (length labs)"
proof (induction labs arbitrary: w)
  case Nil
  then show ?case by simp
next
  case (Cons l labs)
  have "sum_list (fold (bump n) (l # labs) w) = sum_list (bump n l w) + real (length labs)"
    using Cons.IH[of "bump n l w"] Cons.prems by simp
  also have "\<dots> = sum_list w + real (length (l # labs))"
    using Cons.prems by (simp add: sum_list_bump')
  finally show ?case .
qed

lemma count_weights_props:
  "length (count_weights n labs) = nat n"
  "c < nat n \<Longrightarrow> count_weights n labs ! c = real (count_list labs (int c))"
  "\<forall>l\<in>set labs. 0 \<le> l \<and> l < n \<Longrightarrow> sum_list (count_weights n labs) = real (length labs)"
  by (simp_all add: count_weights_alt length_fold_bump nth_fold_bump sum_fold_bump sum_list_replicate)

lemma those_all_Some:
  "\<forall>v\<in>set vs. v \<noteq> None \<Longrightarrow> \<exists>X. those vs = Some X \<and> length X = length vs"
  by (induction vs) (auto split: option.splits)

lemma those_length: "those vs = Some X \<Longrightarrow> length X = length vs"
  by (induction vs arbitrary: X) (auto split: option.splits)


lemma reconfigure_closed:
  assumes h: "0 < horizon_length self"
    and cols: "drop 2 raw_data = (i, column) # rest"
    and len: "length column = df_len raw_data"
  shows "\<exists>daily_data X.
           reconfigure_raw_data self raw_data = Some (Inr (daily_data, drop 2 (map fst raw_data)))
         \<and> those (map snd daily_data) = Some X
         \<and> int (length X) = int (df_len raw_data) div horizon_length self"
proof -
  let ?q = "int (length column) div horizon_length self"
  have d: "distinct (py_range2 1 (?q + 1))" "set (py_range2 1 (?q + 1)) \<subseteq> {1..?q}"
    by (simp_all add: py_range2_def)
  from generate_daily_data_shape[OF h d]
  obtain dd where gen: "generate_daily_data self column (py_range2 1 (?q + 1)) = Some dd"
    and dist: "distinct (map fst dd)"
    and keys: "set (map fst dd) = {1..?q}"
    and n: "int (length dd) = ?q"
    and vals: "\<forall>d\<in>{1..?q}. map_of dd d
                 = Some (Some (take (nat (horizon_length self))
                                 (drop (nat ((d - 1) * horizon_length self)) column)))"
    by blast
  have "\<forall>v\<in>set (map snd dd). v \<noteq> None"
  proof
    fix v assume "v \<in> set (map snd dd)"
    then obtain k where kv: "(k, v) \<in> set dd" by auto
    then have "k \<in> {1..?q}" using keys by force
    moreover have "map_of dd k = Some v" using dist kv by simp
    ultimately show "v \<noteq> None" using vals by auto
  qed
  from those_all_Some[OF this] obtain X where X: "those (map snd dd) = Some X"
    "length X = length dd" by auto
  have "reconfigure_raw_data self raw_data = Some (Inr (dd, drop 2 (map fst raw_data)))"
    using h cols gen len by (simp add: reconfigure_raw_data_def Let_def)
  with X n len show ?thesis by auto
qed

lemma returned_weights:
  assumes "map_option (map_sum id snd \<circ> fst)
             (run :: ((error + lmp_table \<times> lmp_table) \<times> 'g) option) = Some (Inr W)"
  shows "\<exists>lmp g'. run = Some (Inr (lmp, W), g')"
proof (cases run)
  case None
  with assms show ?thesis by simp
next
  case (Some a)
  obtain r g where a: "a = (r, g)" by (cases a)
  show ?thesis
  proof (cases r)
    case (Inl e)
    with assms Some a show ?thesis by simp
  next
    case (Inr p)
    obtain l w where "p = (l, w)" by (cases p)
    with assms Some a Inr show ?thesis by simp
  qed
qed

lemma example_libraries_labels:
  "\<forall>g k X fit g1. KMeans example_libraries g k X = (Inr fit, g1) \<longrightarrow>
     length (labels fit) = length X \<and> (\<forall>l\<in>set (labels fit). 0 \<le> l \<and> l < k)"
proof (intro allI impI)
  fix g k X fit g1
  assume "KMeans example_libraries g k X = (Inr fit, g1)"
  then have k: "0 < k" "k \<le> int (length X)"
    and fit: "fit = \<lparr> cluster_centers = (if even g then take (nat k) X else rev (take (nat k) X)),
                     labels = map (\<lambda>i. if even g then min (int i) (k - 1)
                                          else k - 1 - min (int i) (k - 1)) [0..<length X],
                     inertia = 0 \<rparr>"
    by (auto simp: example_libraries_def split: if_splits)
  show "length (labels fit) = length X \<and> (\<forall>l\<in>set (labels fit). 0 \<le> l \<and> l < k)"
    unfolding fit using k by auto
qed

text \<open>
  C6. When \<open>cluster_lmp_data\<close> returns, the weights it returns are one per cluster
  \<open>1..n_clusters\<close>, the weight of a cluster is the number of days the fit labelled with
  it, and the weights add up to the number of whole days of the input,
  \<open>len(raw_data) // horizon_length\<close>. The table is a table (its columns have one length)
  and the fit returns one label of \<^verbatim>\<open>range(k)\<close> per point, as \<^verbatim>\<open>KMeans\<close> does.
\<close>

theorem cluster_lmp_data_weights:
  assumes "0 < horizon_length self"
    and "\<forall>c\<in>set raw_data. length (snd c) = df_len raw_data"
    and "\<forall>g k X fit g1. KMeans libs g k X = (Inr fit, g1) \<longrightarrow>
            length (labels fit) = length X \<and> (\<forall>l\<in>set (labels fit). 0 \<le> l \<and> l < k)"
    and "cluster_lmp_data libs self raw_data n_clusters scenarios g
           = Some (Inr (lmp_data, weights), g')"
  shows "\<exists>ws X fit.
           weights = [(0, ws)]
         \<and> KMeans libs g n_clusters X = (Inr fit, g')
         \<and> map fst ws = py_range2 1 (n_clusters + 1)
         \<and> (\<forall>d\<in>{1..n_clusters}. map_of ws d = Some (real (count_list (labels fit) (d - 1))))
         \<and> sum_list (map snd ws)
             = real_of_int (int (df_len raw_data) div horizon_length self)"
proof -
  from assms(4) obtain r where r: "reconfigure_raw_data self raw_data = Some r"
    by (auto simp: cluster_lmp_data_def split: option.splits)
  then obtain i column rest where cols: "drop 2 raw_data = (i, column) # rest"
    using assms(1,4)
    by (cases "drop 2 raw_data") (auto simp: cluster_lmp_data_def reconfigure_raw_data_def Let_def)
  have "(i, column) \<in> set (drop 2 raw_data)" using cols by simp
  then have "(i, column) \<in> set raw_data" by (rule in_set_dropD)
  then have len: "length column = df_len raw_data" using assms(2) by force
  from reconfigure_closed[OF assms(1) cols len]
  obtain dd X where rec: "reconfigure_raw_data self raw_data
                            = Some (Inr (dd, drop 2 (map fst raw_data)))"
    and X: "those (map snd dd) = Some X"
    and n: "int (length X) = int (df_len raw_data) div horizon_length self"
    by blast
  from assms(4) rec X obtain fit and centroids :: "real list list"
    where fit: "KMeans libs g n_clusters X = (Inr fit, g')"
    and k: "int (length centroids) = n_clusters"
    and w: "weights = [(0, zip (py_range2 1 (int (length (count_weights n_clusters (labels fit))) + 1))
                          (count_weights n_clusters (labels fit)))]"
    by (auto simp: cluster_lmp_data_def fit_kmeans_def Let_def
             split: prod.splits sum.splits if_splits)
  from k have k0: "0 \<le> n_clusters" by auto
  let ?wc = "count_weights n_clusters (labels fit)"
  let ?ws = "zip (py_range2 1 (n_clusters + 1)) ?wc"
  have lwc: "int (length ?wc) = n_clusters" using k0 by (simp add: count_weights_props)
  have lr: "length (py_range2 1 (n_clusters + 1)) = length ?wc"
    using k0 by (simp add: py_range2_def count_weights_props)
  from assms(3) fit have "length (labels fit) = length X
                             \<and> (\<forall>l\<in>set (labels fit). 0 \<le> l \<and> l < n_clusters)"
    by blast
  then have lab: "length (labels fit) = length X"
    "\<forall>l\<in>set (labels fit). 0 \<le> l \<and> l < n_clusters" by blast+
  have w': "weights = [(0, ?ws)]" using w lwc by simp
  have fst: "map fst ?ws = py_range2 1 (n_clusters + 1)" using lr by simp
  have snd: "map snd ?ws = ?wc" using lr by simp
  have sum: "sum_list (map snd ?ws) = real_of_int (int (df_len raw_data) div horizon_length self)"
    unfolding snd using count_weights_props(3)[OF lab(2)] lab(1) n
    by (metis of_int_of_nat_eq)
  have each: "map_of ?ws d = Some (real (count_list (labels fit) (d - 1)))"
    if "d \<in> {1..n_clusters}" for d
  proof -
    have i: "nat (d - 1) < length ?wc" using that k0 by (simp add: count_weights_props)
    have "py_range2 1 (n_clusters + 1) ! nat (d - 1) = d"
      using that by (simp add: py_range2_def)
    moreover have "distinct (py_range2 1 (n_clusters + 1))" by (simp add: py_range2_def)
    ultimately have "map_of ?ws d = Some (?wc ! nat (d - 1))"
      using i lr by (metis map_of_zip_nth)
    moreover have "?wc ! nat (d - 1) = real (count_list (labels fit) (d - 1))"
      using that i by (simp add: count_weights_props)
    ultimately show ?thesis by simp
  qed
  show ?thesis
    using w' fit fst each sum by (intro exI[of _ ?ws] exI[of _ X] exI[of _ fit]) blast
qed

theorem cluster_lmp_data_weights_witness:
  "map_option (map_sum id snd \<circ> fst)
     (cluster_lmp_data example_libraries \<lparr> seed = 20, horizon_length = 24 \<rparr>
        (example_prices (replicate 24 1 @ replicate 24 2)) 2 () 0)
     = Some (Inr [(0, [(1, 1), (2, 1)])])
   \<and> (1 + 1 :: real)
     = real_of_int (int (df_len (example_prices (replicate 24 1 @ replicate 24 2)))
                      div horizon_length \<lparr> seed = 20, horizon_length = 24 \<rparr>)"
proof -
  define self where "self = \<lparr> seed = 20, horizon_length = 24 \<rparr>"
  define raw where "raw = example_prices (replicate 24 1 @ replicate 24 2)"
  define run where "run = cluster_lmp_data example_libraries self raw 2 () 0"
  have run: "map_option (map_sum id snd \<circ> fst) run = Some (Inr [(0, [(1, 1), (2, 1)])])"
    unfolding run_def self_def raw_def by code_simp
  from returned_weights[OF run] obtain lmp g'
    where ret: "cluster_lmp_data example_libraries self raw 2 () 0
                  = Some (Inr (lmp, [(0, [(1, 1), (2, 1)])]), g')"
    unfolding run_def by blast
  have h: "0 < horizon_length self" by (simp add: self_def)
  have wf: "\<forall>c\<in>set raw. length (snd c) = df_len raw"
    by (simp add: raw_def example_prices_def df_len_def)
  from cluster_lmp_data_weights[OF h wf example_libraries_labels ret]
  obtain ws :: "(int \<times> real) list" where ws: "[(0, [(1, 1), (2, 1)])] = [(0 :: int, ws)]"
    and sm: "sum_list (map snd ws) = real_of_int (int (df_len raw) div horizon_length self)"
    by (elim exE conjE)
  from ws have "ws = [(1, 1), (2, 1)]" by simp
  with sm have "(1 + 1 :: real) = real_of_int (int (df_len raw) div horizon_length self)"
    by simp
  with run show ?thesis unfolding run_def self_def raw_def by (intro conjI)
qed

section \<open>The stochastic build\<close>

lemma construct_periods_closed:
  "construct_periods args self0 =
     (let P = pyo_Set (make_set_period self0);
          B = map (\<lambda>p. (p, on_content (sm_create_process_model self0 (flowsheet_options args))
                    (new_process (empty_block args)))) P
      in case set_scenarios self0 of
           Some S \<Rightarrow> self0\<lparr> set_period := P, scenario := map (\<lambda>s. (s, B)) S,
                            calls := calls self0 @ concat (map (\<lambda>s. map (Create_period (Some s)) P) S) \<rparr>
         | None \<Rightarrow> self0\<lparr> set_period := P, period := B,
                           calls := calls self0 @ map (Create_period None) P \<rparr>)"
  by (simp add: construct_periods_def build_scenario_model_def Let_def split: option.splits)

lemma for_all_periods_scenarios:
  "set_scenarios self = Some S \<Longrightarrow> scenario self = map (\<lambda>s. (s, map (\<lambda>p. (p, B p)) P)) S \<Longrightarrow>
   for_all_periods f ev self =
     self\<lparr> scenario := map (\<lambda>s. (s, map (\<lambda>p. (p, on_content f (B p))) P)) S,
           calls := calls self @ concat (map (\<lambda>s. map (ev (Some s)) P) S) \<rparr>"
  by (simp add: for_all_periods_def comp_def)

lemma for_all_periods_single:
  "set_scenarios self = None \<Longrightarrow> period self = map (\<lambda>p. (p, B p)) P \<Longrightarrow>
   for_all_periods f ev self =
     self\<lparr> period := map (\<lambda>p. (p, on_content f (B p))) P,
           calls := calls self @ map (ev None) P \<rparr>"
  by (simp add: for_all_periods_def comp_def)


lemma build_stochastic_closed:
  assumes init: "initialization_func args = Some init"
    and blk: "solver args (init (initialization_options args)
                (sm_create_process_model self0 (flowsheet_options args) (empty_block args)))
              = (blk, optimal)"
    and fresh: "calls self0 = []" "scenario self0 = []" "period self0 = []"
  shows "build_stochastic_multiperiod args self0 =
    (let P = pyo_Set (make_set_period self0);
         keys = (case set_scenarios self0 of None \<Rightarrow> [None] | Some S \<Rightarrow> map Some S);
         post = (case unfix_dof_func args of None \<Rightarrow> (\<lambda>b. b)
                 | Some unfix \<Rightarrow> unfix (unfix_dof_options args));
         c0 = sm_create_process_model self0 (flowsheet_options args) (empty_block args);
         c = (if optimal then post (from_json args c0 (to_json args blk)) else c0);
         B = map (\<lambda>p. (p, (new_process c :: ('b, 'v) process))) P
     in (if optimal then None else Some AssertionError,
         self0\<lparr> set_period := P,
                scenario := (case set_scenarios self0 of None \<Rightarrow> []
                             | Some S \<Rightarrow> map (\<lambda>s. (s, B)) S),
                period := (case set_scenarios self0 of None \<Rightarrow> B | Some S \<Rightarrow> []),
                calls := concat (map (\<lambda>s. map (Create_period s) P) keys)
                         @ [Create_throwaway, Initialize_throwaway, Solve_throwaway]
                         @ (if optimal
                            then concat (map (\<lambda>s. map (From_json s) P) keys)
                                 @ (case unfix_dof_func args of None \<Rightarrow> []
                                    | Some unfix \<Rightarrow> concat (map (\<lambda>s. map (Unfix_dof s) P) keys))
                            else []) \<rparr>))"
proof (cases "set_scenarios self0")
  case None
  show ?thesis
    unfolding build_stochastic_multiperiod_def construct_periods_closed
    by (cases "unfix_dof_func args"; cases optimal)
       (simp_all add: init blk None fresh Let_def for_all_periods_def on_content_def
          new_process_def comp_def)
next
  case (Some S)
  show ?thesis
    unfolding build_stochastic_multiperiod_def construct_periods_closed
    by (cases "unfix_dof_func args"; cases optimal)
       (simp_all add: init blk Some fresh Let_def for_all_periods_def on_content_def
          new_process_def comp_def)
qed


lemma init_stochastic_fresh:
  "calls (init_stochastic n create glp gpp days years scen) = []"
  "scenario (init_stochastic n create glp gpp days years scen) = []"
  "period (init_stochastic n create glp gpp days years scen) = []"
  "set_scenarios (init_stochastic n create glp gpp days years scen) = map_option pyo_Set scen"
  "sm_create_process_model (init_stochastic n create glp gpp days years scen) = create"
  by (simp_all add: init_stochastic_def)


text \<open>
  C9. With an initialization function the build constructs one throwaway flowsheet,
  initializes it and solves it, once each and after every period block has been
  constructed. When the solve is not optimal the build raises an AssertionError, nothing
  is loaded into any period block and every period flowsheet is as the factory left it.
  When it is optimal the snapshot of the solved flowsheet is loaded into every period
  block of every scenario, and every load comes before the first call of the unfix
  function: the log of calls is the constructions, the throwaway, the loads and then the
  unfixes, and every period flowsheet is the unfixed (if an unfix function is given),
  loaded factory result.
\<close>

theorem build_stochastic_initialization:
  fixes m :: "('s, 'o, 'b, 'v) stochastic_model"
  assumes "initialization_func args = Some init"
    and "solver args (init (initialization_options args)
                (create (flowsheet_options args) (empty_block args))) = (blk, optimal)"
    and "build_stochastic_multiperiod args
           (init_stochastic n create glp gpp days years scen) = (e, m)"
    and "keys = (case set_scenarios m of None \<Rightarrow> [None] | Some S \<Rightarrow> map Some S)"
    and "c0 = create (flowsheet_options args) (empty_block args)"
    and "c = (if optimal
              then (case unfix_dof_func args of None \<Rightarrow> (\<lambda>b. b)
                    | Some unfix \<Rightarrow> unfix (unfix_dof_options args))
                     (from_json args c0 (to_json args blk))
              else c0)"
  shows "e = (if optimal then None else Some AssertionError)
       \<and> calls m = concat (map (\<lambda>s. map (Create_period s) (set_period m)) keys)
                   @ [Create_throwaway, Initialize_throwaway, Solve_throwaway]
                   @ (if optimal
                      then concat (map (\<lambda>s. map (From_json s) (set_period m)) keys)
                           @ (case unfix_dof_func args of None \<Rightarrow> []
                              | Some unfix \<Rightarrow>
                                  concat (map (\<lambda>s. map (Unfix_dof s) (set_period m)) keys))
                      else [])
       \<and> set_scenarios m = map_option pyo_Set scen
       \<and> map fst (scenario m) = (case set_scenarios m of None \<Rightarrow> [] | Some S \<Rightarrow> S)
       \<and> (\<forall>(s, ps)\<in>set (scenario m).
             map fst ps = set_period m \<and> (\<forall>(p, b)\<in>set ps. content b = c))
       \<and> map fst (period m) = (case set_scenarios m of None \<Rightarrow> set_period m | Some S \<Rightarrow> [])
       \<and> (\<forall>(p, b)\<in>set (period m). content b = c)"
proof -
  let ?self0 = "init_stochastic n create glp gpp days years scen :: ('s, 'o, 'b, 'v) stochastic_model"
  have blk: "solver args (init (initialization_options args)
                (sm_create_process_model ?self0 (flowsheet_options args) (empty_block args)))
              = (blk, optimal)"
    using assms(2) by (simp add: init_stochastic_fresh)
  note closed = build_stochastic_closed[OF assms(1) blk init_stochastic_fresh(1,2,3)]
  show ?thesis
  proof (cases scen)
    case None
    with closed assms(3,4,5,6) show ?thesis
      by (cases "unfix_dof_func args")
         (auto simp: Let_def init_stochastic_fresh new_process_def comp_def)
  next
    case (Some S)
    with closed assms(3,4,5,6) show ?thesis
      by (cases "unfix_dof_func args")
         (auto simp: Let_def init_stochastic_fresh new_process_def comp_def)
  qed
qed

theorem build_stochastic_initialization_witness:
  "fst (build_stochastic_multiperiod (example_args False) (example_stochastic None))
     = Some AssertionError
   \<and> calls (snd (build_stochastic_multiperiod (example_args False) (example_stochastic None)))
     = [Create_period None (T 1), Create_period None (T 2),
        Create_throwaway, Initialize_throwaway, Solve_throwaway]
   \<and> map (content \<circ> snd)
       (period (snd (build_stochastic_multiperiod (example_args False) (example_stochastic None))))
     = [[''flowsheet''], [''flowsheet'']]
   \<and> fst (build_stochastic_multiperiod (example_args True) (example_stochastic (Some [''a''])))
     = None
   \<and> calls (snd (build_stochastic_multiperiod (example_args True)
                   (example_stochastic (Some [''a'']))))
     = [Create_period (Some ''a'') (T 1), Create_period (Some ''a'') (T 2),
        Create_throwaway, Initialize_throwaway, Solve_throwaway,
        From_json (Some ''a'') (T 1), From_json (Some ''a'') (T 2),
        Unfix_dof (Some ''a'') (T 1), Unfix_dof (Some ''a'') (T 2)]
   \<and> map (map (content \<circ> snd) \<circ> snd)
       (scenario (snd (build_stochastic_multiperiod (example_args True)
                   (example_stochastic (Some [''a''])))))
     = [[[''flowsheet'', ''loaded'', ''flowsheet'', ''initialized'', ''solved'', ''unfixed''],
         [''flowsheet'', ''loaded'', ''flowsheet'', ''initialized'', ''solved'', ''unfixed'']]]"
proof -
  let ?r1 = "build_stochastic_multiperiod (example_args False) (example_stochastic None)"
  let ?r2 = "build_stochastic_multiperiod (example_args True) (example_stochastic (Some [''a'']))"
  let ?init = "\<lambda>(opts :: unit) (b :: string list). b @ [''initialized'']"
  let ?create = "\<lambda>(opts :: unit) (b :: string list). b @ [''flowsheet'']"
  have i: "initialization_func (example_args conv) = Some ?init" for conv
    by (simp add: example_args_def)
  have s: "solver (example_args conv)
             (?init (initialization_options (example_args conv))
                (?create (flowsheet_options (example_args conv)) (empty_block (example_args conv))))
           = ([''flowsheet'', ''initialized'', ''solved''], conv)" for conv
    by (simp add: example_args_def)
  have b1: "build_stochastic_multiperiod (example_args False)
              (init_stochastic 2 ?create (\<lambda>b1 b2. [(''soc_out'', ''soc_in'')]) None None None None)
            = (fst ?r1, snd ?r1)"
    by (simp add: example_stochastic_def)
  have b2: "build_stochastic_multiperiod (example_args True)
              (init_stochastic 2 ?create (\<lambda>b1 b2. [(''soc_out'', ''soc_in'')]) None None None
                 (Some [''a'']))
            = (fst ?r2, snd ?r2)"
    by (simp add: example_stochastic_def)
  from build_stochastic_initialization[OF i s b1 refl refl refl]
  have e1: "fst ?r1 = Some AssertionError" by simp
  from build_stochastic_initialization[OF i s b2 refl refl refl]
  have e2: "fst ?r2 = None" by simp
  have rest: "calls (snd ?r1)
     = [Create_period None (T 1), Create_period None (T 2),
        Create_throwaway, Initialize_throwaway, Solve_throwaway]
   \<and> map (content \<circ> snd) (period (snd ?r1)) = [[''flowsheet''], [''flowsheet'']]
   \<and> calls (snd ?r2)
     = [Create_period (Some ''a'') (T 1), Create_period (Some ''a'') (T 2),
        Create_throwaway, Initialize_throwaway, Solve_throwaway,
        From_json (Some ''a'') (T 1), From_json (Some ''a'') (T 2),
        Unfix_dof (Some ''a'') (T 1), Unfix_dof (Some ''a'') (T 2)]
   \<and> map (map (content \<circ> snd) \<circ> snd) (scenario (snd ?r2))
     = [[[''flowsheet'', ''loaded'', ''flowsheet'', ''initialized'', ''solved'', ''unfixed''],
         [''flowsheet'', ''loaded'', ''flowsheet'', ''initialized'', ''solved'', ''unfixed'']]]"
    by code_simp
  from e1 e2 rest show ?thesis by (intro conjI) blast+
qed

section \<open>The build without scenarios\<close>


lemma update_absent: "k \<notin> fst ` set al \<Longrightarrow> AList.update k v al = al @ [(k, v)]"
  by (induction al) auto

lemma set_process_fields [simp]:
  "TIME (set_process t b m) = TIME m"
  "pyomo_model (set_process t b m) = pyomo_model m"
  "first_active_time (set_process t b m) = first_active_time m"
  "n_time_points (set_process t b m) = n_time_points m"
  "create_process_model (set_process t b m) = create_process_model m"
  "get_linking_variable_pairs (set_process t b m) = get_linking_variable_pairs m"
  "get_periodic_variable_pairs (set_process t b m) = get_periodic_variable_pairs m"
  "map_of (blocks (set_process t b m)) = (map_of (blocks m))(t \<mapsto> b)"
  "map fst (blocks (set_process t b m)) =
     (if t \<in> set (map fst (blocks m)) then map fst (blocks m) else map fst (blocks m) @ [t])"
  by (simp_all add: set_process_def update_conv' update_keys)


lemma fill_constraint_closed:
  "fill_constraint ps =
     \<lparr> con_index = py_range (int (length ps)), con_body = enumerate_py ps, con_active = True \<rparr>"
proof -
  have gen: "fold (\<lambda>(i, pair) c. c\<lparr> con_body := AList.update i pair (con_body c) \<rparr>) xs c
             = c\<lparr> con_body := con_body c @ xs \<rparr>"
    if "distinct (map fst xs)" "fst ` set xs \<inter> fst ` set (con_body c) = {}"
    for xs :: "(int \<times> 'a \<times> 'a) list" and c :: "'a constraint"
    using that
  proof (induction xs arbitrary: c)
    case Nil
    then show ?case by simp
  next
    case (Cons x xs)
    obtain i p where x: "x = (i, p)" by (cases x)
    have a: "AList.update i p (con_body c) = con_body c @ [(i, p)]"
      using Cons.prems(2) x by (intro update_absent) auto
    have "fst ` set xs \<inter> fst ` set (con_body (c\<lparr> con_body := con_body c @ [(i, p)] \<rparr>)) = {}"
      using Cons.prems x by auto
    with Cons.IH[of "c\<lparr> con_body := con_body c @ [(i, p)] \<rparr>"] Cons.prems(1)
    show ?case using x a by simp
  qed
  have d: "distinct (map fst (enumerate_py ps))"
    by (simp add: enumerate_py_def py_range_def)
  show ?thesis
    unfolding fill_constraint_def by (subst gen) (use d in simp_all)
qed


lemma set_process_blocks: "set_process t b (m\<lparr> blocks := bs \<rparr>) = m\<lparr> blocks := AList.update t b bs \<rparr>"
  by (simp add: set_process_def)














section \<open>The horizon shift\<close>



lemma fill_constraint_active [simp]: "con_active (fill_constraint ps)"
  by (simp add: fill_constraint_closed)










section \<open>Results: sequential links\<close>




section \<open>Results: the horizon shift\<close>




section \<open>Results: the periodic link\<close>




end
